theory Spec2Isabelle
  imports Complex_Main
begin

section \<open>Market sentiment analyzer: the aggregation pipeline\<close>

text \<open>
  A shallow embedding of \<^verbatim>\<open>backend/sentiment_analyzer.py\<close> (class
  \<^verbatim>\<open>MarketSentimentAnalyzer\<close>) and of the two drivers of \<^verbatim>\<open>backend/app.py\<close>.
  Conventions:
  \<^item> a Python exception is a value \<open>Inl e\<close> of the sum type \<open>py_error + 'a\<close>;
  \<^item> a Python \<^verbatim>\<open>dict\<close> is an association list in insertion order with distinct keys;
  \<^item> Python \<^verbatim>\<open>int\<close> is \<open>int\<close>; a \<^verbatim>\<open>float\<close> is the rational number (\<open>rat\<close>) that is its
    exact value, and the operations that compute floats are not interpreted: they are
    parameters of the model (the record \<open>float_ops\<close> below);
  \<^item> Python \<^verbatim>\<open>str\<close> is \<open>string\<close>; \<^verbatim>\<open>str.lower\<close> is modelled on the ASCII letters;
  \<^item> the \<^verbatim>\<open>print\<close> calls and the \<^verbatim>\<open>'timestamp'\<close> members (wall-clock reads) are left out.
\<close>

subsection \<open>Values and errors\<close>

datatype py_error = KeyError | AttributeError | TypeError | ZeroDivisionError

text \<open>A JSON member that the code reads as a string: \<^verbatim>\<open>null\<close> (Python \<^verbatim>\<open>None\<close>) or a string.\<close>

datatype pystr = PyNone | PyStr string

text \<open>The member \<^verbatim>\<open>'source'\<close> of an article: \<^verbatim>\<open>null\<close>, or an object whose member
  \<^verbatim>\<open>'name'\<close> may be missing (\<open>None\<close>).\<close>

datatype source_obj = SourceNull | SourceObj "pystr option"

text \<open>An article as NewsAPI returns it: a JSON object. Each member is \<open>None\<close> when the key is
  missing from the object.\<close>

record article =
  art_title :: "pystr option"
  art_description :: "pystr option"
  art_url :: "pystr option"
  art_source :: "source_obj option"

subsection \<open>Insertion-ordered dictionaries\<close>

text \<open>\<^verbatim>\<open>d[k] = v\<close>: an existing key keeps its position and gets the new value, a new key goes to
  the end.\<close>

fun dict_set :: "'k \<Rightarrow> 'v \<Rightarrow> ('k \<times> 'v) list \<Rightarrow> ('k \<times> 'v) list" where
  "dict_set k v [] = [(k, v)]"
| "dict_set k v ((k', v') # d) = (if k' = k then (k, v) # d else (k', v') # dict_set k v d)"

text \<open>\<^verbatim>\<open>d.get(k)\<close>, with \<open>None\<close> for a missing key.\<close>

fun dict_get :: "('k \<times> 'v) list \<Rightarrow> 'k \<Rightarrow> 'v option" where
  "dict_get [] k = None"
| "dict_get ((k', v') # d) k = (if k' = k then Some v' else dict_get d k)"

subsection \<open>Deduplication (\<^verbatim>\<open>categorize_and_analyze\<close>, the dict comprehension)\<close>

text \<open>
  \<^verbatim>\<open>unique_articles = {a['url']: a for a in all_articles}.values()\<close>

  \<open>url_dict\<close> is the comprehension, run from the dictionary built so far; \<^verbatim>\<open>a['url']\<close> raises
  \<^verbatim>\<open>KeyError\<close> when the article has no \<^verbatim>\<open>'url'\<close> key.
\<close>

fun url_dict :: "article list \<Rightarrow> (pystr \<times> article) list \<Rightarrow> py_error + (pystr \<times> article) list" where
  "url_dict [] d = Inr d"
| "url_dict (a # as) d =
     (case art_url a of
        None \<Rightarrow> Inl KeyError
      | Some u \<Rightarrow> url_dict as (dict_set u a d))"

definition unique_articles :: "article list \<Rightarrow> py_error + article list" where
  "unique_articles all_articles =
     (case url_dict all_articles [] of
        Inl e \<Rightarrow> Inl e
      | Inr d \<Rightarrow> Inr (map snd d))"

text \<open>The articles of a batch that carry the url \<open>u\<close>, in batch order.\<close>

definition with_url :: "pystr \<Rightarrow> article list \<Rightarrow> article list" where
  "with_url u as = filter (\<lambda>a. art_url a = Some u) as"

subsection \<open>NewsSource (\<^verbatim>\<open>fetch_news\<close>)\<close>

text \<open>
  What one \<^verbatim>\<open>requests.get\<close> round trip gives the code:
  \<^item> \<open>RequestException\<close>: \<^verbatim>\<open>requests.get\<close>, \<^verbatim>\<open>raise_for_status\<close> or \<^verbatim>\<open>response.json\<close>
    raised a \<^verbatim>\<open>requests.exceptions.RequestException\<close> (connection failure, timeout, an HTTP
    error status such as 429, a body that is not JSON: since requests 2.27 the decoding
    error of \<^verbatim>\<open>response.json\<close> is a \<^verbatim>\<open>RequestException\<close>);
  \<^item> \<open>JsonNotObject\<close>: the body decoded to a JSON value that is not an object (an array, a
    string, a number, \<^verbatim>\<open>null\<close>), which has no method \<^verbatim>\<open>get\<close>;
  \<^item> \<open>JsonObject m\<close>: the body decoded to an object; \<open>m\<close> is its member \<^verbatim>\<open>'articles'\<close>,
    \<open>None\<close> when the key is missing.
  The member \<^verbatim>\<open>'articles'\<close> is either a value without a length (\<^verbatim>\<open>null\<close>, a number, a
  boolean), on which \<^verbatim>\<open>len\<close> raises, or a list of article objects.
\<close>

datatype articles_value = NoLen | ArticleList "article list"

datatype response = RequestException | JsonNotObject | JsonObject "articles_value option"

text \<open>The news service, as the run sees it: the response to the query for a keyword.\<close>

type_synonym news_source = "string \<Rightarrow> response"

definition fetch_news :: "news_source \<Rightarrow> string \<Rightarrow> py_error + article list" where
  "fetch_news news keywords =
     (case news keywords of
        RequestException \<Rightarrow> Inr []
      | JsonNotObject \<Rightarrow> Inl AttributeError
      | JsonObject None \<Rightarrow> Inr []
      | JsonObject (Some NoLen) \<Rightarrow> Inl TypeError
      | JsonObject (Some (ArticleList articles)) \<Rightarrow> Inr articles)"

text \<open>The loop \<^verbatim>\<open>for asset in assets: all_articles.extend(self.fetch_news(asset, days=1))\<close>.\<close>

fun fetch_all :: "news_source \<Rightarrow> string list \<Rightarrow> article list \<Rightarrow> py_error + article list" where
  "fetch_all news [] all_articles = Inr all_articles"
| "fetch_all news (asset # assets) all_articles =
     (case fetch_news news asset of
        Inl e \<Rightarrow> Inl e
      | Inr articles \<Rightarrow> fetch_all news assets (all_articles @ articles))"

subsection \<open>SentimentClassifier (\<^verbatim>\<open>analyze_sentiment\<close>)\<close>

text \<open>The transformers pipeline applied to a text: it raises, or its first result carries a
  label and a score.\<close>

datatype pipeline_result = Raises | Result string rat

type_synonym pipeline = "string \<Rightarrow> pipeline_result"

text \<open>\<^verbatim>\<open>self.sentiment_pipeline\<close> is \<open>None\<close> when loading the model failed.\<close>

definition analyze_sentiment :: "pipeline option \<Rightarrow> string \<Rightarrow> nat \<Rightarrow> (int \<times> rat) option" where
  "analyze_sentiment sentiment_pipeline text max_length =
     (case sentiment_pipeline of
        None \<Rightarrow> None
      | Some p \<Rightarrow>
          if text = [] then None
          else (case p (take max_length text) of
                  Raises \<Rightarrow> Some (0, 1 / 2)
                | Result label score \<Rightarrow>
                    Some (if label = ''POSITIVE'' then (1, score)
                          else if label = ''NEGATIVE'' then (- 1, score)
                          else (0, 1 / 2))))"

subsection \<open>Per-article processing (\<^verbatim>\<open>process_articles\<close>)\<close>

record sentiment_data =
  title :: pystr
  url :: pystr
  source :: pystr
  sentiment :: int
  confidence :: rat

text \<open>\<^verbatim>\<open>article.get(key, default)\<close> on a member read as a string.\<close>

definition get_or :: "pystr option \<Rightarrow> string \<Rightarrow> pystr" where
  "get_or member dflt = (case member of None \<Rightarrow> PyStr dflt | Some v \<Rightarrow> v)"

text \<open>How an f-string formats the value.\<close>

fun format_str :: "pystr \<Rightarrow> string" where
  "format_str PyNone = ''None''"
| "format_str (PyStr s) = s"

text \<open>\<^verbatim>\<open>article.get('source', {}).get('name', 'Unknown')\<close>: a \<^verbatim>\<open>null\<close> source has no
  method \<^verbatim>\<open>get\<close>.\<close>

fun source_name :: "source_obj option \<Rightarrow> py_error + pystr" where
  "source_name None = Inr (PyStr ''Unknown'')"
| "source_name (Some SourceNull) = Inl AttributeError"
| "source_name (Some (SourceObj name)) = Inr (get_or name ''Unknown'')"

text \<open>The body of the \<^verbatim>\<open>try\<close> in the loop: an error, no entry (the analysis gave \<^verbatim>\<open>None\<close>),
  or the entry to append.\<close>

definition process_article :: "pipeline option \<Rightarrow> article \<Rightarrow> py_error + sentiment_data option" where
  "process_article sentiment_pipeline article =
     (let title_v = get_or (art_title article) [];
          description_v = get_or (art_description article) [];
          url_v = get_or (art_url article) []
      in case source_name (art_source article) of
           Inl e \<Rightarrow> Inl e
         | Inr source_v \<Rightarrow>
             (case analyze_sentiment sentiment_pipeline
                     (format_str title_v @ '' '' @ format_str description_v) 512 of
                None \<Rightarrow> Inr None
              | Some (sentiment_value, confidence_v) \<Rightarrow>
                  Inr (Some \<lparr>title = title_v, url = url_v, source = source_v,
                             sentiment = sentiment_value, confidence = confidence_v\<rparr>)))"

text \<open>The loop over the articles; \<^verbatim>\<open>except Exception: continue\<close> drops the article.\<close>

fun process_loop :: "pipeline option \<Rightarrow> article list \<Rightarrow> sentiment_data list \<Rightarrow> sentiment_data list" where
  "process_loop sentiment_pipeline [] sentiments = sentiments"
| "process_loop sentiment_pipeline (article # articles) sentiments =
     (case process_article sentiment_pipeline article of
        Inl e \<Rightarrow> process_loop sentiment_pipeline articles sentiments
      | Inr None \<Rightarrow> process_loop sentiment_pipeline articles sentiments
      | Inr (Some sentiment_data) \<Rightarrow>
          process_loop sentiment_pipeline articles (sentiments @ [sentiment_data]))"

text \<open>The parameter \<^verbatim>\<open>category\<close> of the source is not used by it and is left out.\<close>

definition process_articles :: "pipeline option \<Rightarrow> article list \<Rightarrow> sentiment_data list" where
  "process_articles sentiment_pipeline articles = process_loop sentiment_pipeline articles []"

subsection \<open>Category statistics (\<^verbatim>\<open>categorize_and_analyze\<close>)\<close>

text \<open>
  Floating point. The operations that produce a float round their result in binary
  arithmetic. They belong to the Python runtime, to numpy and to pandas, not to this
  program, and the model takes them as they are: every function that computes floats
  receives them as the members of a record.
  \<^item> \<open>fl_truediv a b\<close>: \<^verbatim>\<open>a / b\<close> on two ints, for \<open>b \<noteq> 0\<close>;
  \<^item> \<open>fl_mul x y\<close>: \<^verbatim>\<open>x * y\<close> on floats (an int operand is converted first);
  \<^item> \<open>fl_round x n\<close>: \<^verbatim>\<open>round(x, n)\<close> on a Python float;
  \<^item> \<open>pd_mean xs\<close>: \<^verbatim>\<open>Series.mean()\<close> of a column that holds the values \<open>xs\<close>;
  \<^item> \<open>np_round x n\<close>: \<^verbatim>\<open>round(x, n)\<close> on the numpy scalar that the mean is.
\<close>

record float_ops =
  fl_truediv :: "int \<Rightarrow> int \<Rightarrow> rat"
  fl_mul :: "rat \<Rightarrow> rat \<Rightarrow> rat"
  fl_round :: "rat \<Rightarrow> nat \<Rightarrow> rat"
  pd_mean :: "rat list \<Rightarrow> rat"
  np_round :: "rat \<Rightarrow> nat \<Rightarrow> rat"

record category_stats =
  positive_count :: int
  positive_pct :: rat
  negative_count :: int
  negative_pct :: rat
  neutral_count :: int
  neutral_pct :: rat
  total_mentions :: int
  avg_confidence :: rat
  articles :: "sentiment_data list"

text \<open>True division \<^verbatim>\<open>a / b\<close> of two ints, which raises on a zero divisor.\<close>

definition py_div :: "float_ops \<Rightarrow> int \<Rightarrow> int \<Rightarrow> py_error + rat" where
  "py_div fp a b = (if b = 0 then Inl ZeroDivisionError else Inr (fl_truediv fp a b))"

text \<open>\<^verbatim>\<open>round((n / total * 100) if total > 0 else 0, 2)\<close>; rounding the int \<^verbatim>\<open>0\<close> gives the
  int \<^verbatim>\<open>0\<close>.\<close>

definition percentage :: "float_ops \<Rightarrow> int \<Rightarrow> int \<Rightarrow> py_error + rat" where
  "percentage fp n tot =
     (if tot > 0
      then (case py_div fp n tot of
              Inl e \<Rightarrow> Inl e
            | Inr q \<Rightarrow> Inr (fl_round fp (fl_mul fp q 100) 2))
      else Inr 0)"

text \<open>The \<^verbatim>\<open>if sentiments: ... else: ...\<close> of the loop body: the record stored under the
  category. The average is \<^verbatim>\<open>round(df['confidence'].mean(), 3)\<close>.\<close>

definition category_result :: "float_ops \<Rightarrow> sentiment_data list \<Rightarrow> py_error + category_stats" where
  "category_result fp sentiments =
     (if sentiments \<noteq> [] then
        (let pos = int (length (filter (\<lambda>s. sentiment s > 0) sentiments));
             neg = int (length (filter (\<lambda>s. sentiment s < 0) sentiments));
             neu = int (length (filter (\<lambda>s. sentiment s = 0) sentiments));
             tot = int (length sentiments)
         in case percentage fp pos tot of
              Inl e \<Rightarrow> Inl e
            | Inr pos_pct \<Rightarrow>
           (case percentage fp neg tot of
              Inl e \<Rightarrow> Inl e
            | Inr neg_pct \<Rightarrow>
           (case percentage fp neu tot of
              Inl e \<Rightarrow> Inl e
            | Inr neu_pct \<Rightarrow>
                Inr \<lparr>positive_count = pos, positive_pct = pos_pct,
                     negative_count = neg, negative_pct = neg_pct,
                     neutral_count = neu, neutral_pct = neu_pct,
                     total_mentions = tot,
                     avg_confidence = np_round fp (pd_mean fp (map confidence sentiments)) 3,
                     articles = take 10 sentiments\<rparr>)))
      else
        Inr \<lparr>positive_count = 0, positive_pct = 0, negative_count = 0, negative_pct = 0,
             neutral_count = 0, neutral_pct = 0, total_mentions = 0, avg_confidence = 0,
             articles = []\<rparr>)"

text \<open>\<^verbatim>\<open>self.asset_categories\<close>: category name to keyword list, in insertion order.\<close>

type_synonym asset_categories = "(string \<times> string list) list"

type_synonym category_results = "(string \<times> category_stats) list"

text \<open>Fetching, deduplicating and classifying for one category: the \<^verbatim>\<open>sentiments\<close> of the
  loop body.\<close>

definition category_sentiments ::
  "news_source \<Rightarrow> pipeline option \<Rightarrow> string list \<Rightarrow> py_error + sentiment_data list" where
  "category_sentiments news sentiment_pipeline assets =
     (case fetch_all news assets [] of
        Inl e \<Rightarrow> Inl e
      | Inr all_articles \<Rightarrow>
          (case unique_articles all_articles of
             Inl e \<Rightarrow> Inl e
           | Inr unique \<Rightarrow> Inr (process_articles sentiment_pipeline unique)))"

text \<open>The loop over \<^verbatim>\<open>self.asset_categories.items()\<close>, from the \<^verbatim>\<open>results\<close> built so far.\<close>

fun categorize_loop ::
  "float_ops \<Rightarrow> news_source \<Rightarrow> pipeline option \<Rightarrow> asset_categories \<Rightarrow> category_results \<Rightarrow>
   py_error + category_results" where
  "categorize_loop fp news sentiment_pipeline [] results = Inr results"
| "categorize_loop fp news sentiment_pipeline ((category, assets) # rest) results =
     (case category_sentiments news sentiment_pipeline assets of
        Inl e \<Rightarrow> Inl e
      | Inr sentiments \<Rightarrow>
          (case category_result fp sentiments of
             Inl e \<Rightarrow> Inl e
           | Inr stats \<Rightarrow>
               categorize_loop fp news sentiment_pipeline rest (dict_set category stats results)))"

definition categorize_and_analyze ::
  "float_ops \<Rightarrow> news_source \<Rightarrow> pipeline option \<Rightarrow> asset_categories \<Rightarrow>
   py_error + category_results" where
  "categorize_and_analyze fp news sentiment_pipeline asset_categories =
     categorize_loop fp news sentiment_pipeline asset_categories []"

subsection \<open>Asset ranking (\<^verbatim>\<open>identify_top_assets\<close>)\<close>

text \<open>\<^verbatim>\<open>str.lower\<close>, on the ASCII letters.\<close>

definition lower_char :: "char \<Rightarrow> char" where
  "lower_char c =
     (let n = (of_char c :: nat) in if 65 \<le> n \<and> n \<le> 90 then char_of (n + 32) else c)"

definition lower :: "string \<Rightarrow> string" where
  "lower s = map lower_char s"

text \<open>\<^verbatim>\<open>s in t\<close> on strings: \<open>s\<close> occurs in \<open>t\<close> as a contiguous substring.\<close>

fun py_in :: "string \<Rightarrow> string \<Rightarrow> bool" where
  "py_in s [] = (s = [])"
| "py_in s (c # cs) = (take (length s) (c # cs) = s \<or> py_in s cs)"

record asset_stat =
  mentions :: int
  positive :: int
  negative :: int
  sentiment_score :: int

type_synonym asset_stats = "(string \<times> asset_stat) list"

text \<open>The entry of the \<^verbatim>\<open>defaultdict\<close> for a key not seen yet.\<close>

definition new_stat :: asset_stat where
  "new_stat = \<lparr>mentions = 0, positive = 0, negative = 0, sentiment_score = 0\<rparr>"

text \<open>The four updates under \<^verbatim>\<open>if asset.lower() in article['title'].lower()\<close>, for an article
  of sentiment \<open>s\<close>.\<close>

definition count_match :: "string \<Rightarrow> int \<Rightarrow> asset_stats \<Rightarrow> asset_stats" where
  "count_match asset s stats =
     (let st = (case dict_get stats asset of None \<Rightarrow> new_stat | Some st \<Rightarrow> st)
      in dict_set asset
           \<lparr>mentions = mentions st + 1,
            positive = (if s > 0 then positive st + 1 else positive st),
            negative = (if s > 0 then negative st else if s < 0 then negative st + 1 else negative st),
            sentiment_score = sentiment_score st + s\<rparr>
           stats)"

text \<open>The test of the innermost loop; \<^verbatim>\<open>.lower()\<close> on a title that is \<^verbatim>\<open>None\<close> raises.\<close>

fun title_matches :: "string \<Rightarrow> sentiment_data \<Rightarrow> py_error + bool" where
  "title_matches asset article =
     (case title article of
        PyNone \<Rightarrow> Inl AttributeError
      | PyStr t \<Rightarrow> Inr (py_in (lower asset) (lower t)))"

text \<open>\<^verbatim>\<open>for asset in asset_list\<close>\<close>

fun scan_asset_list :: "string list \<Rightarrow> sentiment_data \<Rightarrow> asset_stats \<Rightarrow> py_error + asset_stats" where
  "scan_asset_list [] article stats = Inr stats"
| "scan_asset_list (asset # asset_list) article stats =
     (case title_matches asset article of
        Inl e \<Rightarrow> Inl e
      | Inr hit \<Rightarrow>
          scan_asset_list asset_list article
            (if hit then count_match asset (sentiment article) stats else stats))"

text \<open>\<^verbatim>\<open>for asset_list in self.asset_categories.values()\<close>\<close>

fun scan_asset_lists :: "string list list \<Rightarrow> sentiment_data \<Rightarrow> asset_stats \<Rightarrow> py_error + asset_stats" where
  "scan_asset_lists [] article stats = Inr stats"
| "scan_asset_lists (asset_list # asset_lists) article stats =
     (case scan_asset_list asset_list article stats of
        Inl e \<Rightarrow> Inl e
      | Inr stats' \<Rightarrow> scan_asset_lists asset_lists article stats')"

text \<open>\<^verbatim>\<open>for article in data.get('articles', [])\<close>\<close>

fun scan_articles :: "asset_categories \<Rightarrow> sentiment_data list \<Rightarrow> asset_stats \<Rightarrow> py_error + asset_stats" where
  "scan_articles asset_categories [] stats = Inr stats"
| "scan_articles asset_categories (article # arts) stats =
     (case scan_asset_lists (map snd asset_categories) article stats of
        Inl e \<Rightarrow> Inl e
      | Inr stats' \<Rightarrow> scan_articles asset_categories arts stats')"

text \<open>\<^verbatim>\<open>for category, data in all_data.items()\<close>\<close>

fun scan_categories :: "asset_categories \<Rightarrow> category_results \<Rightarrow> asset_stats \<Rightarrow> py_error + asset_stats" where
  "scan_categories asset_categories [] stats = Inr stats"
| "scan_categories asset_categories ((category, data) # all_data) stats =
     (case scan_articles asset_categories (articles data) stats of
        Inl e \<Rightarrow> Inl e
      | Inr stats' \<Rightarrow> scan_categories asset_categories all_data stats')"

text \<open>The first half of \<^verbatim>\<open>identify_top_assets\<close>: the accumulated \<^verbatim>\<open>asset_stats\<close>.\<close>

definition collect_asset_stats :: "asset_categories \<Rightarrow> category_results \<Rightarrow> py_error + asset_stats" where
  "collect_asset_stats asset_categories all_data = scan_categories asset_categories all_data []"

record asset_entry =
  asset :: string
  asset_mentions :: int
  asset_positive :: int
  asset_negative :: int
  sentiment_avg :: rat

text \<open>One element of the list comprehension.\<close>

definition asset_entry_of :: "float_ops \<Rightarrow> string \<Rightarrow> asset_stat \<Rightarrow> py_error + asset_entry" where
  "asset_entry_of fp a st =
     (case (if mentions st > 0
            then (case py_div fp (sentiment_score st) (mentions st) of
                    Inl e \<Rightarrow> Inl e
                  | Inr q \<Rightarrow> Inr (fl_round fp q 3))
            else Inr 0) of
        Inl e \<Rightarrow> Inl e
      | Inr avg \<Rightarrow>
          Inr \<lparr>asset = a, asset_mentions = mentions st, asset_positive = positive st,
               asset_negative = negative st, sentiment_avg = avg\<rparr>)"

text \<open>The comprehension \<^verbatim>\<open>[{...} for asset, stats in asset_stats.items() if stats['mentions'] > 0]\<close>\<close>

fun assets_list :: "float_ops \<Rightarrow> asset_stats \<Rightarrow> py_error + asset_entry list" where
  "assets_list fp [] = Inr []"
| "assets_list fp ((a, st) # stats) =
     (if mentions st > 0
      then (case asset_entry_of fp a st of
              Inl e \<Rightarrow> Inl e
            | Inr entry \<Rightarrow>
                (case assets_list fp stats of
                   Inl e \<Rightarrow> Inl e
                 | Inr entries \<Rightarrow> Inr (entry # entries)))
      else assets_list fp stats)"

record rankings =
  most_talked :: "asset_entry list"
  least_talked :: "asset_entry list"
  most_positive :: "asset_entry list"
  most_negative :: "asset_entry list"

text \<open>\<^verbatim>\<open>sorted\<close> is stable, also with \<^verbatim>\<open>reverse=True\<close>: descending order is the stable sort on
  the negated key.\<close>

definition identify_top_assets ::
  "float_ops \<Rightarrow> asset_categories \<Rightarrow> category_results \<Rightarrow> py_error + rankings" where
  "identify_top_assets fp asset_categories all_data =
     (case collect_asset_stats asset_categories all_data of
        Inl e \<Rightarrow> Inl e
      | Inr stats \<Rightarrow>
          (case assets_list fp stats of
             Inl e \<Rightarrow> Inl e
           | Inr l \<Rightarrow>
               Inr \<lparr>most_talked = take 10 (sort_key (\<lambda>x. - asset_mentions x) l),
                    least_talked = take 10 (sort_key asset_mentions l),
                    most_positive = take 10 (sort_key (\<lambda>x. - sentiment_avg x) l),
                    most_negative = take 10 (sort_key sentiment_avg l)\<rparr>))"

subsection \<open>The report (\<^verbatim>\<open>generate_report\<close>)\<close>

record category_summary =
  summary_positive :: rat
  summary_negative :: rat
  summary_neutral :: rat
  summary_total_mentions :: int
  summary_avg_confidence :: rat
  articles_count :: int

record report =
  market_sentiment :: "(string \<times> category_summary) list"
  top_assets :: rankings
  detailed_category_data :: category_results

definition summary :: "category_stats \<Rightarrow> category_summary" where
  "summary data =
     \<lparr>summary_positive = positive_pct data,
      summary_negative = negative_pct data,
      summary_neutral = neutral_pct data,
      summary_total_mentions = total_mentions data,
      summary_avg_confidence = avg_confidence data,
      articles_count = positive_count data + negative_count data + neutral_count data\<rparr>"

text \<open>The comprehension for \<^verbatim>\<open>'market_sentiment'\<close> runs over the items of a dictionary, whose
  keys are distinct, so it is a map over them.\<close>

definition generate_report ::
  "float_ops \<Rightarrow> news_source \<Rightarrow> pipeline option \<Rightarrow> asset_categories \<Rightarrow> py_error + report" where
  "generate_report fp news sentiment_pipeline asset_categories =
     (case categorize_and_analyze fp news sentiment_pipeline asset_categories of
        Inl e \<Rightarrow> Inl e
      | Inr category_results \<Rightarrow>
          (case identify_top_assets fp asset_categories category_results of
             Inl e \<Rightarrow> Inl e
           | Inr top_v \<Rightarrow>
               Inr \<lparr>market_sentiment = map (\<lambda>(category, data). (category, summary data)) category_results,
                    top_assets = top_v,
                    detailed_category_data = category_results\<rparr>))"

subsection \<open>The report file (\<^verbatim>\<open>save_report\<close>)\<close>

text \<open>
  \<^verbatim>\<open>with open(filename, 'w', encoding='utf-8') as f: json.dump(report, f, ...)\<close> inside
  \<^verbatim>\<open>try ... except Exception: return None\<close>.

  The file is \<open>None\<close> when it does not exist, else its content. Opening with mode \<^verbatim>\<open>'w'\<close>
  creates or truncates the file; \<^verbatim>\<open>json.dump\<close> then writes the text of the report piece by
  piece. The environment decides how far this gets: opening fails, or writing fails after
  some characters have reached the file, or nothing fails. The argument \<open>doc\<close> is the JSON
  text of the report.
\<close>

datatype io_fault = NoFault | OpenFails | WriteFails nat

definition save_report ::
  "string \<Rightarrow> string \<Rightarrow> io_fault \<Rightarrow> string option \<Rightarrow> string option \<times> string option" where
  "save_report doc filename fault file =
     (case fault of
        OpenFails \<Rightarrow> (file, None)
      | WriteFails n \<Rightarrow> (Some (take n doc), None)
      | NoFault \<Rightarrow> (Some doc, Some filename))"

subsection \<open>The two drivers (\<^verbatim>\<open>app.py\<close>)\<close>

text \<open>
  The pipeline is started from two threads: the scheduler thread runs
  \<^verbatim>\<open>scheduled_analysis\<close>, which executes \<^verbatim>\<open>generate_report\<close> and \<^verbatim>\<open>save_report\<close> inside
  \<^verbatim>\<open>with analysis_lock\<close>; a request thread runs \<^verbatim>\<open>trigger_analysis\<close> for each
  \<^verbatim>\<open>POST /api/analyze\<close>, which executes the same two calls and never touches the lock.
  The state records who is inside the pipeline; an event is one thread entering or
  leaving it, and \<open>None\<close> means the event cannot happen in that state.
\<close>

record server =
  lock_held :: bool
  scheduled_running :: bool
  manual_running :: nat

datatype event = TimerFires | ScheduledEnds | PostAnalyze | ManualEnds

definition initial :: server where
  "initial = \<lparr>lock_held = False, scheduled_running = False, manual_running = 0\<rparr>"

fun fire :: "event \<Rightarrow> server \<Rightarrow> server option" where
  "fire TimerFires s =
     (if lock_held s then None
      else Some (s\<lparr>lock_held := True, scheduled_running := True\<rparr>))"
| "fire ScheduledEnds s =
     (if scheduled_running s
      then Some (s\<lparr>lock_held := False, scheduled_running := False\<rparr>) else None)"
| "fire PostAnalyze s = Some (s\<lparr>manual_running := manual_running s + 1\<rparr>)"
| "fire ManualEnds s =
     (if manual_running s > 0
      then Some (s\<lparr>manual_running := manual_running s - 1\<rparr>) else None)"

fun run :: "event list \<Rightarrow> server \<Rightarrow> server option" where
  "run [] s = Some s"
| "run (e # es) s = (case fire e s of None \<Rightarrow> None | Some s' \<Rightarrow> run es s')"

text \<open>The number of pipeline executions in progress.\<close>

definition executions :: "server \<Rightarrow> nat" where
  "executions s = (if scheduled_running s then 1 else 0) + manual_running s"

subsection \<open>Notions for stating the properties of the ranking\<close>

text \<open>The articles that the ranking scans: the \<^verbatim>\<open>'articles'\<close> lists of all categories, in order.\<close>

definition sampled :: "category_results \<Rightarrow> sentiment_data list" where
  "sampled all_data = concat (map (\<lambda>(category, data). articles data) all_data)"

text \<open>All keywords of the configuration, in order, with repetitions.\<close>

definition all_keywords :: "asset_categories \<Rightarrow> string list" where
  "all_keywords asset_categories = concat (map snd asset_categories)"

text \<open>The sentiments that one article brings to the keyword \<open>k\<close> from a list of keywords: its
  own sentiment once for every occurrence of \<open>k\<close> in the list that matches its title.\<close>

definition article_matches :: "string \<Rightarrow> string list \<Rightarrow> sentiment_data \<Rightarrow> int list" where
  "article_matches k ks a =
     concat (map (\<lambda>k'. if k' = k \<and> title_matches k' a = Inr True then [sentiment a] else []) ks)"

text \<open>The sentiments of all matches of the keyword \<open>k\<close> in a run: one entry for every pair of
  a sampled article and an occurrence of \<open>k\<close> among the keywords that matches its title.\<close>

definition match_sentiments :: "asset_categories \<Rightarrow> category_results \<Rightarrow> string \<Rightarrow> int list" where
  "match_sentiments asset_categories all_data k =
     concat (map (article_matches k (all_keywords asset_categories)) (sampled all_data))"

text \<open>The statistics of a keyword after the matches with sentiments \<open>ms\<close> have been counted
  on top of the entry \<open>entry\<close> (\<open>None\<close>: no entry yet).\<close>

definition credit :: "int list \<Rightarrow> asset_stat option \<Rightarrow> asset_stat option" where
  "credit ms entry =
     (if ms = [] then entry
      else (let st = (case entry of None \<Rightarrow> new_stat | Some st \<Rightarrow> st)
            in Some \<lparr>mentions = mentions st + int (length ms),
                     positive = positive st + int (length (filter (\<lambda>s. s > 0) ms)),
                     negative = negative st + int (length (filter (\<lambda>s. s < 0) ms)),
                     sentiment_score = sentiment_score st + sum_list ms\<rparr>))"

subsection \<open>Example data\<close>

text \<open>The record of a category without classified articles.\<close>

definition no_stats :: category_stats where
  "no_stats =
     \<lparr>positive_count = 0, positive_pct = 0, negative_count = 0, negative_pct = 0,
      neutral_count = 0, neutral_pct = 0, total_mentions = 0, avg_confidence = 0,
      articles = []\<rparr>"

text \<open>Two articles under one url with different titles, and two with the empty url.\<close>

definition gold_early :: article where
  "gold_early = \<lparr>art_title = Some (PyStr ''Gold rises''), art_description = Some PyNone,
     art_url = Some (PyStr ''https://n.example/1''), art_source = Some (SourceObj (Some (PyStr ''Wire'')))\<rparr>"

definition gold_late :: article where
  "gold_late = \<lparr>art_title = Some (PyStr ''Gold falls''), art_description = Some PyNone,
     art_url = Some (PyStr ''https://n.example/1''), art_source = Some (SourceObj (Some (PyStr ''Wire'')))\<rparr>"

definition blank_early :: article where
  "blank_early = \<lparr>art_title = Some (PyStr ''Silver rises''), art_description = Some PyNone,
     art_url = Some (PyStr []), art_source = Some (SourceObj (Some (PyStr ''Wire'')))\<rparr>"

definition blank_late :: article where
  "blank_late = \<lparr>art_title = Some (PyStr ''Silver falls''), art_description = Some PyNone,
     art_url = Some (PyStr []), art_source = Some (SourceObj (Some (PyStr ''Wire'')))\<rparr>"

text \<open>
  The float operations on the values of the example runs below. In these runs every
  quotient, product, mean and rounding has a result that is a short binary fraction
  (\<^verbatim>\<open>2 / 4 * 100\<close> is \<^verbatim>\<open>50.0\<close>, the mean of \<^verbatim>\<open>0.75, 0.75, 0.5, 0.5\<close> is \<^verbatim>\<open>0.625\<close> and rounding
  it to 3 decimals leaves it as it is), which binary arithmetic gives without error; on
  these values the operations are those of exact arithmetic. The record is used for
  these runs only.
\<close>

definition round_half_even :: "rat \<Rightarrow> nat \<Rightarrow> rat" where
  "round_half_even x n =
     (let y = x * 10 ^ n;
          f = \<lfloor>y\<rfloor>;
          d = y - of_int f
      in of_int (if d < 1 / 2 then f
                 else if 1 / 2 < d then f + 1
                 else if even f then f else f + 1) / 10 ^ n)"

definition example_ops :: float_ops where
  "example_ops =
     \<lparr>fl_truediv = (\<lambda>a b. of_int a / of_int b),
      fl_mul = (\<lambda>x y. x * y),
      fl_round = round_half_even,
      pd_mean = (\<lambda>xs. sum_list xs / of_nat (length xs)),
      np_round = round_half_even\<rparr>"

text \<open>A run over two categories. For \<^verbatim>\<open>gold\<close>, with the keywords \<^verbatim>\<open>gold\<close> and \<^verbatim>\<open>GLD\<close>, the
  first query returns three articles, two of them under one url, and the second returns two
  more. For \<^verbatim>\<open>silver\<close> the only query fails.\<close>

definition mk_article :: "string \<Rightarrow> string \<Rightarrow> article" where
  "mk_article t u = \<lparr>art_title = Some (PyStr t), art_description = Some (PyStr []),
     art_url = Some (PyStr u), art_source = Some (SourceObj (Some (PyStr ''Wire'')))\<rparr>"

definition gold_news :: news_source where
  "gold_news k =
     (if k = ''gold'' then
        JsonObject (Some (ArticleList
          [mk_article ''Gold rally'' ''u1'', mk_article ''Gold up'' ''u2'',
           mk_article ''Gold rally'' ''u1'']))
      else if k = ''GLD'' then
        JsonObject (Some (ArticleList
          [mk_article ''GLD outflows'' ''u3'', mk_article ''GLD report'' ''u4'']))
      else RequestException)"

definition gold_pipeline :: pipeline where
  "gold_pipeline t =
     (if t = ''Gold rally '' then Result ''POSITIVE'' (3 / 4)
      else if t = ''Gold up '' then Result ''POSITIVE'' (3 / 4)
      else if t = ''GLD outflows '' then Result ''NEGATIVE'' (1 / 2)
      else Result ''LABEL_2'' (1 / 4))"

definition gold_categories :: asset_categories where
  "gold_categories = [(''gold'', [''gold'', ''GLD'']), (''silver'', [''silver''])]"

definition mk_sentiment :: "string \<Rightarrow> string \<Rightarrow> int \<Rightarrow> rat \<Rightarrow> sentiment_data" where
  "mk_sentiment t u s c =
     \<lparr>title = PyStr t, url = PyStr u, source = PyStr ''Wire'', sentiment = s, confidence = c\<rparr>"

definition gold_sentiments :: "sentiment_data list" where
  "gold_sentiments =
     [mk_sentiment ''Gold rally'' ''u1'' 1 (3 / 4), mk_sentiment ''Gold up'' ''u2'' 1 (3 / 4),
      mk_sentiment ''GLD outflows'' ''u3'' (- 1) (1 / 2), mk_sentiment ''GLD report'' ''u4'' 0 (1 / 2)]"

definition gold_stats :: category_stats where
  "gold_stats =
     \<lparr>positive_count = 2, positive_pct = 50, negative_count = 1, negative_pct = 25,
      neutral_count = 1, neutral_pct = 25, total_mentions = 4, avg_confidence = 5 / 8,
      articles = gold_sentiments\<rparr>"

text \<open>A classifier that raises on every text, and a news service whose body is never a JSON
  object.\<close>

definition failing_pipeline :: pipeline where
  "failing_pipeline t = Raises"

definition broken_news :: news_source where
  "broken_news k = JsonNotObject"

text \<open>A news service that fails for the keyword \<^verbatim>\<open>gold\<close> and answers for \<^verbatim>\<open>GLD\<close>.\<close>

definition flaky_news :: news_source where
  "flaky_news k =
     (if k = ''GLD'' then JsonObject (Some (ArticleList [mk_article ''GLD report'' ''u4'']))
      else RequestException)"

text \<open>A stored report and the text of a new one.\<close>

definition old_doc :: string where
  "old_doc = ''{\"timestamp\": \"t0\"}''"

definition new_doc :: string where
  "new_doc = ''{\"timestamp\": \"t1\"}''"

text \<open>A news service that is down, and the report of a run in which no category has a
  classified article.\<close>

definition down_news :: news_source where
  "down_news k = RequestException"

definition quiet_report :: report where
  "quiet_report =
     \<lparr>market_sentiment = [(''gold'', summary no_stats), (''silver'', summary no_stats)],
      top_assets = \<lparr>most_talked = [], least_talked = [], most_positive = [], most_negative = []\<rparr>,
      detailed_category_data = [(''gold'', no_stats), (''silver'', no_stats)]\<rparr>"

text \<open>One article whose title names two of three keywords.\<close>

definition crypto_categories :: asset_categories where
  "crypto_categories = [(''criptos'', [''Bitcoin'', ''Ethereum'', ''Solana''])]"

definition crypto_data :: category_results where
  "crypto_data =
     [(''criptos'',
       \<lparr>positive_count = 1, positive_pct = 100, negative_count = 0, negative_pct = 0,
        neutral_count = 0, neutral_pct = 0, total_mentions = 1, avg_confidence = 3 / 4,
        articles = [mk_sentiment ''Bitcoin and Ethereum surge'' ''u9'' 1 (3 / 4)]\<rparr>)]"

section \<open>Properties\<close>

subsection \<open>Dictionaries\<close>

lemma dict_get_set: "dict_get (dict_set k v d) k' = (if k' = k then Some v else dict_get d k')"
  by (induction d) auto

lemma dict_keys_set: "fst ` set (dict_set k v d) = insert k (fst ` set d)"
proof (induction d)
  case Nil
  then show ?case by simp
next
  case (Cons p d)
  obtain k' v' where p: "p = (k', v')" by (cases p)
  show ?case
  proof (cases "k' = k")
    case True
    with p show ?thesis by simp
  next
    case False
    with p Cons.IH show ?thesis by (simp add: insert_commute)
  qed
qed

lemma dict_set_distinct: "distinct (map fst d) \<Longrightarrow> distinct (map fst (dict_set k v d))"
proof (induction d)
  case Nil
  then show ?case by simp
next
  case (Cons p d)
  obtain k' v' where p: "p = (k', v')" by (cases p)
  show ?case
  proof (cases "k' = k")
    case True
    with Cons.prems p show ?thesis by simp
  next
    case False
    with Cons p show ?thesis by (simp add: dict_keys_set)
  qed
qed

lemma dict_get_filter:
  "distinct (map fst d) \<Longrightarrow>
   map snd (filter (\<lambda>p. fst p = k) d) = (case dict_get d k of None \<Rightarrow> [] | Some v \<Rightarrow> [v])"
proof (induction d)
  case Nil
  then show ?case by simp
next
  case (Cons p d)
  obtain k' v' where p: "p = (k', v')" by (cases p)
  show ?case
  proof (cases "k' = k")
    case True
    with Cons.prems p have "k \<notin> fst ` set d" by simp
    then have "filter (\<lambda>p. fst p = k) d = []"
      by (auto simp: filter_empty_conv)
    with True p show ?thesis by simp
  next
    case False
    with Cons p show ?thesis by simp
  qed
qed

subsection \<open>Deduplication\<close>

lemma dict_set_subset: "set (dict_set k v d) \<subseteq> insert (k, v) (set d)"
  by (induction d) (auto split: if_splits)

text \<open>The comprehension keeps the keys distinct, stores every article under its own url, and
  holds under each url the last article of the batch with that url.\<close>

lemma url_dict_props:
  "url_dict as d = Inr d' \<Longrightarrow> distinct (map fst d) \<Longrightarrow>
   (\<forall>p\<in>set d. art_url (snd p) = Some (fst p)) \<Longrightarrow>
   distinct (map fst d') \<and> (\<forall>p\<in>set d'. art_url (snd p) = Some (fst p)) \<and>
   (\<forall>u. dict_get d' u = (if with_url u as = [] then dict_get d u else Some (last (with_url u as))))"
proof (induction as arbitrary: d)
  case Nil
  then show ?case by (simp add: with_url_def)
next
  case (Cons a as)
  from Cons.prems(1) obtain k where k: "art_url a = Some k"
    and rec: "url_dict as (dict_set k a d) = Inr d'"
    by (auto split: option.splits)
  have dist: "distinct (map fst (dict_set k a d))"
    using Cons.prems(2) by (rule dict_set_distinct)
  have inv: "\<forall>p\<in>set (dict_set k a d). art_url (snd p) = Some (fst p)"
    using Cons.prems(3) k dict_set_subset [of k a d] by auto
  from Cons.IH [OF rec dist inv]
  have 1: "distinct (map fst d')" and 2: "\<forall>p\<in>set d'. art_url (snd p) = Some (fst p)"
    and 3: "\<And>u. dict_get d' u =
      (if with_url u as = [] then dict_get (dict_set k a d) u else Some (last (with_url u as)))"
    by auto
  have "dict_get d' u =
      (if with_url u (a # as) = [] then dict_get d u else Some (last (with_url u (a # as))))" for u
    using 3 [of u] k by (auto simp: with_url_def dict_get_set)
  with 1 2 show ?case by blast
qed

lemma unique_articles_by_url:
  assumes "unique_articles all_articles = Inr unique"
  shows "filter (\<lambda>x. art_url x = Some u) unique =
         (if with_url u all_articles = [] then [] else [last (with_url u all_articles)])"
proof -
  from assms obtain d where d: "url_dict all_articles [] = Inr d" and u: "unique = map snd d"
    by (auto simp: unique_articles_def split: sum.splits)
  from url_dict_props [OF d]
  have 1: "distinct (map fst d)" and 2: "\<forall>p\<in>set d. art_url (snd p) = Some (fst p)"
    and 3: "dict_get d u =
      (if with_url u all_articles = [] then None else Some (last (with_url u all_articles)))"
    by auto
  have "filter (\<lambda>x. art_url x = Some u) (map snd d) = map snd (filter (\<lambda>p. fst p = u) d)"
    using 2 by (induction d) auto
  also have "\<dots> = (case dict_get d u of None \<Rightarrow> [] | Some v \<Rightarrow> [v])"
    using 1 by (rule dict_get_filter)
  finally show ?thesis using 3 u by simp
qed

lemma unique_gold: "unique_articles [gold_early, gold_late] = Inr [gold_late]"
  by (simp add: unique_articles_def gold_early_def gold_late_def)

lemma unique_blank: "unique_articles [blank_early, blank_late] = Inr [blank_late]"
  by (simp add: unique_articles_def blank_early_def blank_late_def)

text \<open>
  Claim C5. In the deduplicated batch every non-empty url that occurs in the batch is
  carried by exactly one article, and that article is the last one of the batch with this
  url: on duplicate urls the later article wins.
\<close>

theorem dedup_last_wins:
  assumes "unique_articles all_articles = Inr unique"
    and "u \<noteq> []"
    and "with_url (PyStr u) all_articles \<noteq> []"
  shows "filter (\<lambda>x. art_url x = Some (PyStr u)) unique = [last (with_url (PyStr u) all_articles)]"
  using unique_articles_by_url [OF assms(1), of "PyStr u"] assms(3) by simp

theorem dedup_last_wins_witness:
  "unique_articles [gold_early, gold_late] = Inr [gold_late] \<and>
   ''https://n.example/1'' \<noteq> [] \<and>
   with_url (PyStr ''https://n.example/1'') [gold_early, gold_late] \<noteq> [] \<and>
   filter (\<lambda>x. art_url x = Some (PyStr ''https://n.example/1'')) [gold_late] = [gold_late] \<and>
   gold_early \<noteq> gold_late"
proof -
  have h2: "''https://n.example/1'' \<noteq> []" by simp
  have h3: "with_url (PyStr ''https://n.example/1'') [gold_early, gold_late] \<noteq> []"
    by (simp add: with_url_def gold_early_def)
  have l: "last (with_url (PyStr ''https://n.example/1'') [gold_early, gold_late]) = gold_late"
    by (simp add: with_url_def gold_early_def gold_late_def)
  have d: "gold_early \<noteq> gold_late" by (simp add: gold_early_def gold_late_def)
  from dedup_last_wins [OF unique_gold h2 h3] l unique_gold h2 h3 d show ?thesis by simp
qed

text \<open>
  Claim C1, as stated, fails: of two articles whose url is the empty string only the later
  one reaches classification.
\<close>

theorem empty_url_dropped:
  "art_url blank_early = Some (PyStr []) \<and> art_url blank_late = Some (PyStr []) \<and>
   unique_articles [blank_early, blank_late] = Inr [blank_late] \<and>
   blank_early \<notin> set [blank_late]"
  using unique_blank by (simp add: blank_early_def blank_late_def)

text \<open>
  Claim C1, amended. The empty string is a url like any other: when the batch holds
  articles whose url is the empty string, exactly one of them is in the deduplicated
  batch, the last one in batch order.
\<close>

theorem empty_url_last_wins:
  assumes "unique_articles all_articles = Inr unique"
    and "with_url (PyStr []) all_articles \<noteq> []"
  shows "filter (\<lambda>x. art_url x = Some (PyStr [])) unique = [last (with_url (PyStr []) all_articles)]"
  using unique_articles_by_url [OF assms(1), of "PyStr []"] assms(2) by simp

theorem empty_url_last_wins_witness:
  "unique_articles [blank_early, blank_late] = Inr [blank_late] \<and>
   with_url (PyStr []) [blank_early, blank_late] \<noteq> [] \<and>
   filter (\<lambda>x. art_url x = Some (PyStr [])) [blank_late] = [blank_late]"
proof -
  have h2: "with_url (PyStr []) [blank_early, blank_late] \<noteq> []"
    by (simp add: with_url_def blank_early_def)
  have l: "last (with_url (PyStr []) [blank_early, blank_late]) = blank_late"
    by (simp add: with_url_def blank_early_def blank_late_def)
  from empty_url_last_wins [OF unique_blank h2] l unique_blank h2 show ?thesis by simp
qed

subsection \<open>Category statistics\<close>

lemma percentage_value:
  "percentage fp n tot =
     Inr (if tot > 0 then fl_round fp (fl_mul fp (fl_truediv fp n tot) 100) 2 else 0)"
  by (simp add: percentage_def py_div_def)

lemma sign_partition:
  "length (filter (\<lambda>s. sentiment s > 0) ss) + length (filter (\<lambda>s. sentiment s < 0) ss)
     + length (filter (\<lambda>s. sentiment s = 0) ss) = length ss"
  by (induction ss) auto

lemma category_result_empty: "category_result fp [] = Inr no_stats"
  by (simp add: category_result_def no_stats_def)

lemma category_result_nonempty:
  assumes "ss \<noteq> []"
  shows "category_result fp ss =
     Inr \<lparr>positive_count = int (length (filter (\<lambda>s. sentiment s > 0) ss)),
          positive_pct = fl_round fp (fl_mul fp
            (fl_truediv fp (int (length (filter (\<lambda>s. sentiment s > 0) ss))) (int (length ss)))
            100) 2,
          negative_count = int (length (filter (\<lambda>s. sentiment s < 0) ss)),
          negative_pct = fl_round fp (fl_mul fp
            (fl_truediv fp (int (length (filter (\<lambda>s. sentiment s < 0) ss))) (int (length ss)))
            100) 2,
          neutral_count = int (length (filter (\<lambda>s. sentiment s = 0) ss)),
          neutral_pct = fl_round fp (fl_mul fp
            (fl_truediv fp (int (length (filter (\<lambda>s. sentiment s = 0) ss))) (int (length ss)))
            100) 2,
          total_mentions = int (length ss),
          avg_confidence = np_round fp (pd_mean fp (map confidence ss)) 3,
          articles = take 10 ss\<rparr>"
  using assms by (simp add: category_result_def percentage_value Let_def)

lemma category_result_total: "category_result fp ss = Inr st \<Longrightarrow> total_mentions st = int (length ss)"
  by (cases "ss = []") (auto simp: category_result_empty category_result_nonempty no_stats_def)

lemma category_result_not_error: "\<exists>st. category_result fp ss = Inr st"
  by (cases "ss = []") (auto simp: category_result_empty category_result_nonempty)

lemma category_result_sum:
  "category_result fp ss = Inr st \<Longrightarrow>
   positive_count st + negative_count st + neutral_count st = total_mentions st"
  using sign_partition [of ss]
  by (cases "ss = []") (auto simp: category_result_empty category_result_nonempty no_stats_def)

lemma category_result_zero:
  assumes "category_result fp ss = Inr st" and "total_mentions st = 0"
  shows "st = no_stats"
proof -
  from assms have "ss = []" by (simp add: category_result_total)
  with assms(1) show ?thesis by (simp add: category_result_empty)
qed

text \<open>Every record of the results was either there before the loop or is the record computed
  from the sentiments of its category.\<close>

lemma categorize_loop_entries:
  "categorize_loop fp news p cfg results = Inr out \<Longrightarrow> (c, st) \<in> set out \<Longrightarrow>
   (c, st) \<in> set results \<or>
   (\<exists>assets ss. (c, assets) \<in> set cfg \<and> category_sentiments news p assets = Inr ss \<and>
      category_result fp ss = Inr st)"
proof (induction fp news p cfg results rule: categorize_loop.induct)
  case (1 fp news p results)
  then show ?case by simp
next
  case (2 fp news p category assets rest results)
  from "2.prems"(1) obtain ss stats where
    ss: "category_sentiments news p assets = Inr ss" and
    stats: "category_result fp ss = Inr stats" and
    rec: "categorize_loop fp news p rest (dict_set category stats results) = Inr out"
    by (auto split: sum.splits)
  from "2.IH" [OF ss stats rec "2.prems"(2)]
  consider "(c, st) \<in> set (dict_set category stats results)"
    | "\<exists>assets ss. (c, assets) \<in> set rest \<and> category_sentiments news p assets = Inr ss \<and>
        category_result fp ss = Inr st"
    by blast
  then show ?case
  proof cases
    case 1
    with dict_set_subset [of category stats results]
    have "(c, st) = (category, stats) \<or> (c, st) \<in> set results" by auto
    with ss stats show ?thesis by auto
  next
    case 2
    then show ?thesis by auto
  qed
qed

lemma categorize_entries:
  assumes "categorize_and_analyze fp news p cfg = Inr results" and "(c, st) \<in> set results"
  shows "\<exists>assets ss. (c, assets) \<in> set cfg \<and> category_sentiments news p assets = Inr ss \<and>
      category_result fp ss = Inr st"
  using categorize_loop_entries [of fp news p cfg "[]" results c st] assms
  by (simp add: categorize_and_analyze_def)

lemma categorize_loop_keys:
  "categorize_loop fp news p cfg results = Inr out \<Longrightarrow>
   fst ` set out = fst ` set results \<union> fst ` set cfg"
proof (induction fp news p cfg results rule: categorize_loop.induct)
  case (1 fp news p results)
  then show ?case by simp
next
  case (2 fp news p category assets rest results)
  from "2.prems"(1) obtain ss stats where
    ss: "category_sentiments news p assets = Inr ss" and
    stats: "category_result fp ss = Inr stats" and
    rec: "categorize_loop fp news p rest (dict_set category stats results) = Inr out"
    by (auto split: sum.splits)
  from "2.IH" [OF ss stats rec] show ?case
    by (simp add: dict_keys_set)
qed

lemma fetch_news_errors: "fetch_news news k = Inl e \<Longrightarrow> e = AttributeError \<or> e = TypeError"
  by (auto simp: fetch_news_def split: response.splits option.splits articles_value.splits)

lemma fetch_all_errors: "fetch_all news ks acc = Inl e \<Longrightarrow> e = AttributeError \<or> e = TypeError"
  by (induction ks arbitrary: acc) (auto split: sum.splits dest: fetch_news_errors)

lemma url_dict_errors: "url_dict as d = Inl e \<Longrightarrow> e = KeyError"
  by (induction as arbitrary: d) (auto split: option.splits)

lemma category_sentiments_errors:
  "category_sentiments news p assets = Inl e \<Longrightarrow> e \<noteq> ZeroDivisionError"
  by (auto simp: category_sentiments_def unique_articles_def split: sum.splits
      dest: fetch_all_errors url_dict_errors)

lemma categorize_loop_no_zero_division:
  "categorize_loop fp news p cfg results \<noteq> Inl ZeroDivisionError"
proof (induction fp news p cfg results rule: categorize_loop.induct)
  case (1 fp news p results)
  then show ?case by simp
next
  case (2 fp news p category assets rest results)
  show ?case
  proof (cases "category_sentiments news p assets")
    case (Inl e)
    with category_sentiments_errors [OF Inl] show ?thesis by simp
  next
    case (Inr ss)
    obtain stats where stats: "category_result fp ss = Inr stats"
      using category_result_not_error by blast
    with Inr "2.IH" [OF Inr stats] show ?thesis by simp
  qed
qed

subsection \<open>The example run\<close>

lemma gold_run_sentiments:
  "category_sentiments gold_news (Some gold_pipeline) [''gold'', ''GLD''] = Inr gold_sentiments"
  by (simp add: category_sentiments_def fetch_news_def gold_news_def unique_articles_def
      mk_article_def process_articles_def process_article_def get_or_def analyze_sentiment_def
      gold_pipeline_def gold_sentiments_def mk_sentiment_def)

lemma gold_run:
  "categorize_and_analyze example_ops gold_news (Some gold_pipeline) gold_categories =
     Inr [(''gold'', gold_stats), (''silver'', no_stats)]"
  by code_simp

text \<open>
  Claim C6. In every category record that a run produces, the positive, negative and
  neutral counts add up to the total of mentions.
\<close>

theorem counts_sum_to_total:
  assumes "categorize_and_analyze fp news p cfg = Inr results" and "(c, st) \<in> set results"
  shows "positive_count st + negative_count st + neutral_count st = total_mentions st"
  using categorize_entries [OF assms] category_result_sum by blast

theorem counts_sum_to_total_witness:
  "categorize_and_analyze example_ops gold_news (Some gold_pipeline) gold_categories =
     Inr [(''gold'', gold_stats), (''silver'', no_stats)] \<and>
   (''gold'', gold_stats) \<in> set [(''gold'', gold_stats), (''silver'', no_stats)] \<and>
   positive_count gold_stats + negative_count gold_stats + neutral_count gold_stats = 4 \<and>
   total_mentions gold_stats = 4"
proof -
  have m: "(''gold'', gold_stats) \<in> set [(''gold'', gold_stats), (''silver'', no_stats)]"
    by simp
  have t: "total_mentions gold_stats = 4" by (simp add: gold_stats_def)
  from counts_sum_to_total [OF gold_run m] gold_run m t show ?thesis by simp
qed

text \<open>Computing the category records never divides by zero, and a record whose total of
  mentions is 0 is the all-zero record.\<close>

lemma categorize_no_zero_division:
  "categorize_and_analyze fp news p cfg \<noteq> Inl ZeroDivisionError"
  by (simp add: categorize_and_analyze_def categorize_loop_no_zero_division)

lemma categorize_zero_total:
  assumes "categorize_and_analyze fp news p cfg = Inr results" and "(c, st) \<in> set results"
    and "total_mentions st = 0"
  shows "st = no_stats"
  using categorize_entries [OF assms(1,2)] category_result_zero [OF _ assms(3)] by blast

subsection \<open>Classification failures\<close>

lemma process_loop_unavailable: "process_loop None arts sentiments = sentiments"
proof (induction arts arbitrary: sentiments)
  case Nil
  then show ?case by simp
next
  case (Cons a arts)
  have "process_article None a = Inr None \<or> (\<exists>e. process_article None a = Inl e)"
    by (cases "source_name (art_source a)")
       (simp_all add: process_article_def analyze_sentiment_def Let_def)
  with Cons.IH show ?case by auto
qed

text \<open>
  Claim C2, as stated, fails: an article on which the classifier raises is recorded with
  sentiment 0 and confidence 0.5, and its category counts it as a neutral mention.
\<close>

theorem raising_classifier_counted:
  "failing_pipeline (take 512 ''GLD report '') = Raises \<and>
   process_articles (Some failing_pipeline) [mk_article ''GLD report'' ''u4''] =
     [mk_sentiment ''GLD report'' ''u4'' 0 (1 / 2)] \<and>
   category_result example_ops [mk_sentiment ''GLD report'' ''u4'' 0 (1 / 2)] =
     Inr \<lparr>positive_count = 0, positive_pct = 0, negative_count = 0, negative_pct = 0,
          neutral_count = 1, neutral_pct = 100, total_mentions = 1, avg_confidence = 1 / 2,
          articles = [mk_sentiment ''GLD report'' ''u4'' 0 (1 / 2)]\<rparr>"
proof (intro conjI)
  show "failing_pipeline (take 512 ''GLD report '') = Raises"
    by (simp add: failing_pipeline_def)
  show "process_articles (Some failing_pipeline) [mk_article ''GLD report'' ''u4''] =
     [mk_sentiment ''GLD report'' ''u4'' 0 (1 / 2)]"
    by code_simp
  show "category_result example_ops [mk_sentiment ''GLD report'' ''u4'' 0 (1 / 2)] =
     Inr \<lparr>positive_count = 0, positive_pct = 0, negative_count = 0, negative_pct = 0,
          neutral_count = 1, neutral_pct = 100, total_mentions = 1, avg_confidence = 1 / 2,
          articles = [mk_sentiment ''GLD report'' ''u4'' 0 (1 / 2)]\<rparr>"
    by code_simp
qed

text \<open>
  Claim C2, amended. An article on which the classifier raises is not skipped: unless its
  source member is \<^verbatim>\<open>null\<close>, it is appended to the classified articles of its category
  with sentiment 0 and confidence 0.5, and so counts in neutral_count, total_mentions and
  avg_confidence. When the classifier is unavailable, every article is skipped.
\<close>

theorem raising_classifier_is_neutral:
  assumes "p (take 512 (format_str (get_or (art_title a) []) @ '' '' @
              format_str (get_or (art_description a) []))) = Raises"
    and "source_name (art_source a) = Inr src"
  shows "process_loop (Some p) (a # arts) sentiments =
           process_loop (Some p) arts
             (sentiments @ [\<lparr>title = get_or (art_title a) [], url = get_or (art_url a) [],
                source = src, sentiment = 0, confidence = 1 / 2\<rparr>]) \<and>
         process_articles None (a # arts) = []"
  using assms
  by (simp add: process_article_def analyze_sentiment_def Let_def process_articles_def
      process_loop_unavailable)

theorem raising_classifier_is_neutral_witness:
  "failing_pipeline (take 512 (format_str (get_or (art_title (mk_article ''GLD report'' ''u4'')) []) @ '' '' @
      format_str (get_or (art_description (mk_article ''GLD report'' ''u4'')) []))) = Raises \<and>
   source_name (art_source (mk_article ''GLD report'' ''u4'')) = Inr (PyStr ''Wire'') \<and>
   process_loop (Some failing_pipeline) [mk_article ''GLD report'' ''u4''] [] =
     [\<lparr>title = PyStr ''GLD report'', url = PyStr ''u4'', source = PyStr ''Wire'',
       sentiment = 0, confidence = 1 / 2\<rparr>] \<and>
   process_articles None [mk_article ''GLD report'' ''u4''] = []"
proof -
  let ?a = "mk_article ''GLD report'' ''u4''"
  have h1: "failing_pipeline (take 512 (format_str (get_or (art_title ?a) []) @ '' '' @
      format_str (get_or (art_description ?a) []))) = Raises"
    by (simp add: failing_pipeline_def)
  have h2: "source_name (art_source ?a) = Inr (PyStr ''Wire'')"
    by (simp add: mk_article_def get_or_def)
  from raising_classifier_is_neutral [of failing_pipeline ?a "PyStr ''Wire''" "[]" "[]", OF h1 h2] h1 h2
  show ?thesis by (simp add: mk_article_def get_or_def)
qed

subsection \<open>Fetch failures\<close>

lemma fetch_all_skip:
  assumes "fetch_news news kw = Inr []"
  shows "fetch_all news (before @ kw # after) acc = fetch_all news (before @ after) acc"
proof (induction before arbitrary: acc)
  case Nil
  from assms show ?case by simp
next
  case (Cons k before)
  then show ?case by (simp split: sum.splits)
qed

text \<open>
  Claim C7, as stated, fails: a response whose body decodes to JSON that is not an object
  raises out of the fetch, and the run ends with that error.
\<close>

theorem malformed_response_aborts:
  "fetch_news broken_news ''gold'' = Inl AttributeError \<and>
   categorize_and_analyze example_ops broken_news (Some gold_pipeline) gold_categories = Inl AttributeError \<and>
   generate_report example_ops broken_news (Some gold_pipeline) gold_categories = Inl AttributeError"
  by (simp add: fetch_news_def broken_news_def generate_report_def categorize_and_analyze_def
      gold_categories_def category_sentiments_def)

text \<open>
  Claim C7, amended. A fetch that fails with a request exception (connection failure,
  timeout, an HTTP error status such as a rate limit, a body that is not JSON) gives zero
  articles for its keyword, and the category goes on with its other keywords as if the keyword
  had not been queried.
\<close>

theorem request_failure_degrades:
  assumes "news kw = RequestException"
  shows "fetch_news news kw = Inr [] \<and>
         fetch_all news (before @ kw # after) acc = fetch_all news (before @ after) acc"
proof -
  from assms have "fetch_news news kw = Inr []" by (simp add: fetch_news_def)
  with fetch_all_skip [OF this] show ?thesis by simp
qed

theorem request_failure_degrades_witness:
  "flaky_news ''gold'' = RequestException \<and> fetch_news flaky_news ''gold'' = Inr [] \<and>
   fetch_all flaky_news [''gold'', ''GLD''] [] = Inr [mk_article ''GLD report'' ''u4'']"
proof -
  have h: "flaky_news ''gold'' = RequestException" by (simp add: flaky_news_def)
  have r: "fetch_all flaky_news [''GLD''] [] = Inr [mk_article ''GLD report'' ''u4'']"
    by (simp add: fetch_news_def flaky_news_def)
  from request_failure_degrades [of flaky_news "''gold''" "[]" "[''GLD'']" "[]", OF h] h r show ?thesis by simp
qed

subsection \<open>Persistence\<close>

text \<open>
  Claim C4, as stated, fails: when writing fails after the file has been opened, the file
  holds a prefix of the new text, which is neither the complete new report nor the report
  stored before.
\<close>

theorem partial_report_on_disk:
  "save_report new_doc ''market_sentiment_data.json'' (WriteFails 5) (Some old_doc) =
     (Some ''{\"tim'', None) \<and>
   ''{\"tim'' \<noteq> new_doc \<and> ''{\"tim'' \<noteq> old_doc"
  by (simp add: save_report_def new_doc_def old_doc_def)

text \<open>
  Claim C4, amended. Saving is not atomic. When nothing fails, the complete text of the
  report replaces what was stored and the file name is returned. When the file cannot be
  opened, the stored document is left unchanged. When writing fails after \<open>n\<close> characters,
  the file holds the first \<open>n\<close> characters of the new text and nothing of the document
  stored before. In both failure cases the result is \<^verbatim>\<open>None\<close> and no exception leaves
  the function.
\<close>

theorem save_report_outcomes:
  "save_report doc filename NoFault file = (Some doc, Some filename) \<and>
   save_report doc filename OpenFails file = (file, None) \<and>
   save_report doc filename (WriteFails n) file = (Some (take n doc), None)"
  by (simp add: save_report_def)

subsection \<open>Manual and scheduled runs\<close>

text \<open>
  Claim C3 does not hold of the code: after the timer has started a scheduled run, which
  holds the lock, a manual trigger starts a second execution of the pipeline at once.
\<close>

theorem manual_trigger_interleaves:
  "run [TimerFires, PostAnalyze] initial =
     Some \<lparr>lock_held = True, scheduled_running = True, manual_running = 1\<rparr> \<and>
   executions \<lparr>lock_held = True, scheduled_running = True, manual_running = 1\<rparr> = 2"
  by (simp add: initial_def executions_def)

subsection \<open>Every category is reported\<close>

lemma dict_get_mem: "dict_get d k = Some v \<Longrightarrow> (k, v) \<in> set d"
  by (induction d) (auto split: if_splits)

lemma dict_get_None: "dict_get d k = None \<longleftrightarrow> k \<notin> fst ` set d"
proof (induction d)
  case Nil
  then show ?case by simp
next
  case (Cons p d)
  obtain k' v' where p: "p = (k', v')" by (cases p)
  with Cons.IH show ?case by (cases "k' = k") auto
qed

lemma dict_get_map:
  "dict_get (map (\<lambda>(c, d). (c, f d)) xs) k = map_option f (dict_get xs k)"
  by (induction xs) auto

lemma keys_map: "fst ` set (map (\<lambda>(c, d). (c, f d)) xs) = fst ` set xs"
  by (induction xs) auto

lemma categorize_loop_total:
  "(\<forall>(c, assets)\<in>set cfg. \<exists>ss. category_sentiments news p assets = Inr ss) \<Longrightarrow>
   \<exists>out. categorize_loop fp news p cfg results = Inr out"
proof (induction fp news p cfg results rule: categorize_loop.induct)
  case (1 fp news p results)
  then show ?case by simp
next
  case (2 fp news p category assets rest results)
  from "2.prems" obtain ss where ss: "category_sentiments news p assets = Inr ss" by auto
  obtain stats where stats: "category_result fp ss = Inr stats"
    using category_result_not_error by blast
  from "2.prems" have "\<forall>(c, assets)\<in>set rest. \<exists>ss. category_sentiments news p assets = Inr ss"
    by auto
  from "2.IH" [OF ss stats this] ss stats show ?case by simp
qed

lemma scan_articles_empty_config: "scan_articles cfg [] stats = Inr stats"
  by simp

lemma scan_categories_no_articles:
  "(\<forall>(c, st)\<in>set all_data. articles st = []) \<Longrightarrow>
   scan_categories cfg all_data stats = Inr stats"
  by (induction cfg all_data stats rule: scan_categories.induct) auto

lemma identify_top_assets_no_articles:
  assumes "\<forall>(c, st)\<in>set all_data. articles st = []"
  shows "identify_top_assets fp cfg all_data =
     Inr \<lparr>most_talked = [], least_talked = [], most_positive = [], most_negative = []\<rparr>"
  using scan_categories_no_articles [OF assms]
  by (simp add: identify_top_assets_def collect_asset_stats_def)

lemma fetch_all_nothing:
  "(\<forall>k\<in>set ks. fetch_news news k = Inr []) \<Longrightarrow> fetch_all news ks acc = Inr acc"
  by (induction ks arbitrary: acc) auto

lemma fetch_all_urls:
  "(\<forall>k\<in>set ks. \<exists>as. fetch_news news k = Inr as \<and> (\<forall>a\<in>set as. art_url a \<noteq> None)) \<Longrightarrow>
   (\<forall>a\<in>set acc. art_url a \<noteq> None) \<Longrightarrow>
   \<exists>all. fetch_all news ks acc = Inr all \<and> (\<forall>a\<in>set all. art_url a \<noteq> None)"
proof (induction ks arbitrary: acc)
  case Nil
  then show ?case by simp
next
  case (Cons k ks)
  from Cons.prems(1) obtain as where as: "fetch_news news k = Inr as"
    and urls: "\<forall>a\<in>set as. art_url a \<noteq> None"
    by auto
  from Cons.prems(2) urls have "\<forall>a\<in>set (acc @ as). art_url a \<noteq> None" by auto
  with Cons.IH [of "acc @ as"] Cons.prems(1) as show ?case by simp
qed

lemma url_dict_total:
  "(\<forall>a\<in>set as. art_url a \<noteq> None) \<Longrightarrow> \<exists>d'. url_dict as d = Inr d'"
  by (induction as arbitrary: d) (auto split: option.splits)

lemma category_sentiments_nothing:
  assumes "\<forall>k\<in>set assets. fetch_news news k = Inr []"
  shows "category_sentiments news p assets = Inr []"
  using fetch_all_nothing [OF assms, of "[]"]
  by (simp add: category_sentiments_def unique_articles_def process_articles_def)

lemma category_sentiments_unavailable:
  assumes "\<forall>k\<in>set assets. \<exists>as. fetch_news news k = Inr as \<and> (\<forall>a\<in>set as. art_url a \<noteq> None)"
  shows "category_sentiments news None assets = Inr []"
proof -
  from fetch_all_urls [OF assms, of "[]"] obtain all where
    all: "fetch_all news assets [] = Inr all" and urls: "\<forall>a\<in>set all. art_url a \<noteq> None"
    by auto
  from url_dict_total [OF urls, of "[]"] obtain d where "url_dict all [] = Inr d" by blast
  with all show ?thesis
    by (simp add: category_sentiments_def unique_articles_def process_articles_def
        process_loop_unavailable)
qed

text \<open>When no category has a classified article, the run produces a report in which every
  category has the all-zero record.\<close>

lemma quiet_run:
  assumes quiet: "\<forall>(c, assets)\<in>set cfg. category_sentiments news p assets = Inr []"
  shows "\<exists>r. generate_report fp news p cfg = Inr r \<and>
     (\<forall>c\<in>fst ` set cfg. dict_get (detailed_category_data r) c = Some no_stats \<and>
        dict_get (market_sentiment r) c = Some (summary no_stats))"
proof -
  from quiet have "\<forall>(c, assets)\<in>set cfg. \<exists>ss. category_sentiments news p assets = Inr ss"
    by auto
  from categorize_loop_total [OF this, of fp "[]"] obtain out where
    out: "categorize_loop fp news p cfg [] = Inr out" by blast
  have entries: "st = no_stats" if "(c, st) \<in> set out" for c st
  proof -
    from categorize_loop_entries [OF out that] obtain assets ss where
      "(c, assets) \<in> set cfg" "category_sentiments news p assets = Inr ss"
      "category_result fp ss = Inr st"
      by auto
    with quiet have "category_result fp [] = Inr st" by auto
    then show ?thesis by (simp add: category_result_empty)
  qed
  have "articles st = []" if "(c, st) \<in> set out" for c st
    using entries [OF that] by (simp add: no_stats_def)
  then have "\<forall>(c, st)\<in>set out. articles st = []" by auto
  from identify_top_assets_no_articles [OF this, of fp cfg] out
  have r: "generate_report fp news p cfg =
      Inr \<lparr>market_sentiment = map (\<lambda>(category, data). (category, summary data)) out,
           top_assets = \<lparr>most_talked = [], least_talked = [], most_positive = [],
             most_negative = []\<rparr>,
           detailed_category_data = out\<rparr>"
    by (simp add: generate_report_def categorize_and_analyze_def)
  have keys: "fst ` set out = fst ` set cfg"
    using categorize_loop_keys [OF out] by simp
  have "dict_get out c = Some no_stats" if "c \<in> fst ` set cfg" for c
  proof (cases "dict_get out c")
    case None
    with keys that show ?thesis by (simp add: dict_get_None)
  next
    case (Some st)
    with entries [OF dict_get_mem [OF Some]] show ?thesis by simp
  qed
  with r show ?thesis by (simp add: dict_get_map)
qed

lemma report_keys:
  assumes "generate_report fp news p cfg = Inr r"
  shows "fst ` set (market_sentiment r) = fst ` set cfg"
    and "fst ` set (detailed_category_data r) = fst ` set cfg"
proof -
  from assms obtain out top_v where out: "categorize_loop fp news p cfg [] = Inr out"
    and r: "r = \<lparr>market_sentiment = map (\<lambda>(category, data). (category, summary data)) out,
           top_assets = top_v, detailed_category_data = out\<rparr>"
    by (auto simp: generate_report_def categorize_and_analyze_def split: sum.splits)
  from categorize_loop_keys [OF out] have keys: "fst ` set out = fst ` set cfg" by simp
  from r keys show "fst ` set (detailed_category_data r) = fst ` set cfg" by simp
  from r keys keys_map [of summary out] show "fst ` set (market_sentiment r) = fst ` set cfg"
    by simp
qed

lemma quiet_run_down:
  "generate_report example_ops down_news (Some gold_pipeline) gold_categories = Inr quiet_report"
  by code_simp

lemma quiet_run_unavailable:
  "generate_report example_ops gold_news None gold_categories = Inr quiet_report"
  by code_simp

text \<open>
  Claim C10. The report of a run has an entry for every configured category, and for no
  other name, in both \<open>market_sentiment\<close> and \<open>detailed_category_data\<close>. When every
  fetch fails or returns nothing, or when the classifier is unavailable and every fetch
  returns articles that carry a url, the run does produce a report, and every configured
  category has the all-zero record with an empty list of articles in it.
\<close>

theorem every_category_reported:
  "(\<forall>r. generate_report fp news p cfg = Inr r \<longrightarrow>
      fst ` set (market_sentiment r) = fst ` set cfg \<and>
      fst ` set (detailed_category_data r) = fst ` set cfg) \<and>
   ((\<forall>(c, assets)\<in>set cfg. \<forall>k\<in>set assets. fetch_news news k = Inr []) \<or>
    (p = None \<and>
     (\<forall>(c, assets)\<in>set cfg. \<forall>k\<in>set assets.
        \<exists>as. fetch_news news k = Inr as \<and> (\<forall>a\<in>set as. art_url a \<noteq> None))) \<longrightarrow>
    (\<exists>r. generate_report fp news p cfg = Inr r \<and>
       (\<forall>c\<in>fst ` set cfg.
          dict_get (detailed_category_data r) c = Some no_stats \<and>
          dict_get (market_sentiment r) c = Some (summary no_stats))))"
proof (intro conjI allI impI)
  fix r
  assume "generate_report fp news p cfg = Inr r"
  then show "fst ` set (market_sentiment r) = fst ` set cfg"
    and "fst ` set (detailed_category_data r) = fst ` set cfg"
    by (rule report_keys)+
next
  assume "(\<forall>(c, assets)\<in>set cfg. \<forall>k\<in>set assets. fetch_news news k = Inr []) \<or>
    (p = None \<and>
     (\<forall>(c, assets)\<in>set cfg. \<forall>k\<in>set assets.
        \<exists>as. fetch_news news k = Inr as \<and> (\<forall>a\<in>set as. art_url a \<noteq> None)))"
  then have "\<forall>(c, assets)\<in>set cfg. category_sentiments news p assets = Inr []"
  proof
    assume "\<forall>(c, assets)\<in>set cfg. \<forall>k\<in>set assets. fetch_news news k = Inr []"
    then show ?thesis by (auto intro: category_sentiments_nothing)
  next
    assume "p = None \<and>
     (\<forall>(c, assets)\<in>set cfg. \<forall>k\<in>set assets.
        \<exists>as. fetch_news news k = Inr as \<and> (\<forall>a\<in>set as. art_url a \<noteq> None))"
    then show ?thesis by (auto intro!: category_sentiments_unavailable)
  qed
  then show "\<exists>r. generate_report fp news p cfg = Inr r \<and>
       (\<forall>c\<in>fst ` set cfg.
          dict_get (detailed_category_data r) c = Some no_stats \<and>
          dict_get (market_sentiment r) c = Some (summary no_stats))"
    by (rule quiet_run)
qed

theorem every_category_reported_witness:
  "generate_report example_ops down_news (Some gold_pipeline) gold_categories = Inr quiet_report \<and>
   generate_report example_ops gold_news None gold_categories = Inr quiet_report \<and>
   fst ` set (market_sentiment quiet_report) = fst ` set gold_categories \<and>
   fst ` set (detailed_category_data quiet_report) = fst ` set gold_categories \<and>
   dict_get (detailed_category_data quiet_report) ''gold'' = Some no_stats \<and>
   dict_get (market_sentiment quiet_report) ''gold'' = Some (summary no_stats) \<and>
   dict_get (detailed_category_data quiet_report) ''silver'' = Some no_stats \<and>
   dict_get (market_sentiment quiet_report) ''silver'' = Some (summary no_stats)"
proof -
  have down: "\<forall>(c, assets)\<in>set gold_categories. \<forall>k\<in>set assets. fetch_news down_news k = Inr []"
    by (simp add: fetch_news_def down_news_def)
  have cats: "''gold'' \<in> fst ` set gold_categories" "''silver'' \<in> fst ` set gold_categories"
    by (simp_all add: gold_categories_def)
  note inst = every_category_reported [of example_ops down_news "Some gold_pipeline" gold_categories]
  from conjunct1 [OF inst, rule_format, OF quiet_run_down]
  have keys: "fst ` set (market_sentiment quiet_report) = fst ` set gold_categories \<and>
    fst ` set (detailed_category_data quiet_report) = fst ` set gold_categories"
    .
  have "\<exists>r. generate_report example_ops down_news (Some gold_pipeline) gold_categories = Inr r \<and>
       (\<forall>c\<in>fst ` set gold_categories.
          dict_get (detailed_category_data r) c = Some no_stats \<and>
          dict_get (market_sentiment r) c = Some (summary no_stats))"
    by (rule mp [OF conjunct2 [OF inst]], rule disjI1, rule down)
  then obtain r where
    r: "generate_report example_ops down_news (Some gold_pipeline) gold_categories = Inr r" and
    z: "\<forall>c\<in>fst ` set gold_categories.
          dict_get (detailed_category_data r) c = Some no_stats \<and>
          dict_get (market_sentiment r) c = Some (summary no_stats)"
    by (elim exE conjE)
  from r quiet_run_down have "r = quiet_report" by simp
  with z cats have
    "dict_get (detailed_category_data quiet_report) ''gold'' = Some no_stats"
    "dict_get (market_sentiment quiet_report) ''gold'' = Some (summary no_stats)"
    "dict_get (detailed_category_data quiet_report) ''silver'' = Some no_stats"
    "dict_get (market_sentiment quiet_report) ''silver'' = Some (summary no_stats)"
    by blast+
  with keys quiet_run_down quiet_run_unavailable show ?thesis by simp
qed

subsection \<open>Asset ranking\<close>

lemma credit_Nil: "credit [] entry = entry"
  by (simp add: credit_def)

lemma credit_append: "credit (ms @ ms') entry = credit ms' (credit ms entry)"
  by (cases "ms = []"; cases "ms' = []") (simp_all add: credit_def Let_def)

lemma count_match_credit:
  "dict_get (count_match k' s stats) k = credit (if k' = k then [s] else []) (dict_get stats k)"
  by (auto simp: count_match_def dict_get_set credit_def Let_def new_stat_def
      split: option.splits)

lemma scan_asset_list_credit:
  "scan_asset_list ks a stats = Inr stats' \<Longrightarrow>
   dict_get stats' k = credit (article_matches k ks a) (dict_get stats k)"
proof (induction ks arbitrary: stats)
  case Nil
  then show ?case by (simp add: article_matches_def credit_Nil)
next
  case (Cons k' ks)
  from Cons.prems obtain hit where hit: "title_matches k' a = Inr hit"
    and rec: "scan_asset_list ks a (if hit then count_match k' (sentiment a) stats else stats)
                = Inr stats'"
    by (auto split: sum.splits)
  have split: "article_matches k (k' # ks) a =
      (if k' = k \<and> hit then [sentiment a] else []) @ article_matches k ks a"
    using hit by (simp add: article_matches_def)
  have "dict_get (if hit then count_match k' (sentiment a) stats else stats) k =
      credit (if k' = k \<and> hit then [sentiment a] else []) (dict_get stats k)"
    by (simp add: count_match_credit credit_Nil)
  with Cons.IH [OF rec] split show ?case by (simp only: credit_append)
qed

lemma article_matches_append:
  "article_matches k (ks @ ks') a = article_matches k ks a @ article_matches k ks' a"
  by (simp add: article_matches_def)

lemma scan_asset_lists_credit:
  "scan_asset_lists kss a stats = Inr stats' \<Longrightarrow>
   dict_get stats' k = credit (article_matches k (concat kss) a) (dict_get stats k)"
proof (induction kss arbitrary: stats)
  case Nil
  then show ?case by (simp add: article_matches_def credit_Nil)
next
  case (Cons ks kss)
  from Cons.prems obtain mid where mid: "scan_asset_list ks a stats = Inr mid"
    and rec: "scan_asset_lists kss a mid = Inr stats'"
    by (auto split: sum.splits)
  from Cons.IH [OF rec] scan_asset_list_credit [OF mid, of k] show ?case
    by (simp add: article_matches_append credit_append)
qed

lemma scan_articles_credit:
  "scan_articles cfg as stats = Inr stats' \<Longrightarrow>
   dict_get stats' k =
     credit (concat (map (article_matches k (all_keywords cfg)) as)) (dict_get stats k)"
proof (induction as arbitrary: stats)
  case Nil
  then show ?case by (simp add: credit_Nil)
next
  case (Cons a as)
  from Cons.prems obtain mid where mid: "scan_asset_lists (map snd cfg) a stats = Inr mid"
    and rec: "scan_articles cfg as mid = Inr stats'"
    by (auto split: sum.splits)
  from Cons.IH [OF rec] scan_asset_lists_credit [OF mid, of k] show ?case
    by (simp add: credit_append all_keywords_def)
qed

lemma scan_categories_credit:
  "scan_categories cfg all_data stats = Inr stats' \<Longrightarrow>
   dict_get stats' k = credit (match_sentiments cfg all_data k) (dict_get stats k)"
proof (induction cfg all_data stats rule: scan_categories.induct)
  case (1 cfg stats)
  then show ?case by (simp add: match_sentiments_def sampled_def credit_Nil)
next
  case (2 cfg category data all_data stats)
  from "2.prems" obtain mid where mid: "scan_articles cfg (articles data) stats = Inr mid"
    and rec: "scan_categories cfg all_data mid = Inr stats'"
    by (auto split: sum.splits)
  from "2.IH" [OF mid rec] scan_articles_credit [OF mid, of k] show ?case
    by (simp add: credit_append match_sentiments_def sampled_def)
qed

lemma crypto_stats:
  "collect_asset_stats crypto_categories crypto_data =
     Inr [(''Bitcoin'', \<lparr>mentions = 1, positive = 1, negative = 0, sentiment_score = 1\<rparr>),
          (''Ethereum'', \<lparr>mentions = 1, positive = 1, negative = 0, sentiment_score = 1\<rparr>)]"
  by code_simp

text \<open>
  Claim C8. Whenever the scan of the sampled articles returns, the statistics of each
  keyword count exactly its matches: with \<open>ms\<close> the sentiments of all pairs of a sampled
  article and an occurrence of the keyword in the keyword lists whose lower-cased text
  occurs in the lower-cased title, the keyword has no entry when there is no such pair, and
  otherwise its mentions are the number of pairs, its positive and negative counts the
  numbers of pairs with positive and negative sentiment, and its sentiment score the sum.
  Each keyword is counted on its own, whatever else the same article matches.
\<close>

theorem matches_counted_per_keyword:
  assumes "collect_asset_stats cfg all_data = Inr stats"
  shows "dict_get stats k =
     (let ms = match_sentiments cfg all_data k
      in if ms = [] then None
         else Some \<lparr>mentions = int (length ms),
                    positive = int (length (filter (\<lambda>s. s > 0) ms)),
                    negative = int (length (filter (\<lambda>s. s < 0) ms)),
                    sentiment_score = sum_list ms\<rparr>)"
  using scan_categories_credit [of cfg all_data "[]" stats k] assms
  by (simp add: collect_asset_stats_def credit_def Let_def new_stat_def)

theorem matches_counted_per_keyword_witness:
  "collect_asset_stats crypto_categories crypto_data =
     Inr [(''Bitcoin'', \<lparr>mentions = 1, positive = 1, negative = 0, sentiment_score = 1\<rparr>),
          (''Ethereum'', \<lparr>mentions = 1, positive = 1, negative = 0, sentiment_score = 1\<rparr>)] \<and>
   match_sentiments crypto_categories crypto_data ''Bitcoin'' = [1] \<and>
   match_sentiments crypto_categories crypto_data ''Ethereum'' = [1] \<and>
   match_sentiments crypto_categories crypto_data ''Solana'' = [] \<and>
   dict_get [(''Bitcoin'', \<lparr>mentions = 1, positive = 1, negative = 0, sentiment_score = 1\<rparr>),
             (''Ethereum'', \<lparr>mentions = 1, positive = 1, negative = 0, sentiment_score = 1\<rparr>)]
     ''Ethereum'' = Some \<lparr>mentions = 1, positive = 1, negative = 0, sentiment_score = 1\<rparr>"
proof -
  have b: "match_sentiments crypto_categories crypto_data ''Bitcoin'' = [1]"
    by code_simp
  have e: "match_sentiments crypto_categories crypto_data ''Ethereum'' = [1]"
    by code_simp
  have s: "match_sentiments crypto_categories crypto_data ''Solana'' = []"
    by code_simp
  from matches_counted_per_keyword [OF crypto_stats, of "''Ethereum''"] e b s crypto_stats
  show ?thesis by (simp add: Let_def)
qed

end
